theory Spec2Isabelle
  imports Main "HOL-Library.Word"
begin

section \<open>The JWT engine of express-jwtoken (src/lib/main/jwtEngine.ts)\<close>

text \<open>
  The engine is a class with four read-only fields, built once from the caller's options, and
  three asynchronous operations on the request and response of one HTTP exchange:
  \<open>sign\<close> (behind \<open>res.authenticate\<close>), \<open>verify\<close> (run by the middleware before the
  handlers) and the closure \<open>res.deauthenticate\<close>.

  Three collaborators are called but are not part of the file:
  \<^item> the module \<open>jsonwebtoken\<close> (\<open>jwt.sign\<close>, \<open>jwt.verify\<close>), a parameter \<open>jwt\<close> of the
    operations: two functions that answer with an error or a value, as the callbacks
    \<open>(err, value)\<close> do;
  \<^item> the \<open>ClientTokenEngine\<close> (\<open>getToken(req)\<close>, \<open>setToken(signedToken, token, res)\<close>,
    \<open>removeToken(res)\<close>), a field of the options; \<open>CookieCTE()\<close>, the default, is a
    parameter of \<open>processOptions\<close>;
  \<^item> \<open>crypto.randomBytes\<close>, modelled by a stream of bytes that each call consumes.

  An awaited call of the transport or of the hook is taken to return normally and not to
  assign \<open>req.token\<close> or \<open>req.signedToken\<close>, the two fields that the engine owns; the only
  rejections are those of \<open>jwt.sign\<close> and \<open>jwt.verify\<close>. A promise is a sum: \<open>Inl err\<close> is a
  rejection, \<open>Inr v\<close> a resolved value. Keys are strings (a \<open>Buffer\<close> is not modelled).
\<close>

subsection \<open>JavaScript values\<close>

type_synonym key = string

text \<open>\<open>JwtToken\<close> is \<open>Record<string, any>\<close>: the engine never looks inside a payload.\<close>

type_synonym 'v JwtToken = "(string \<times> 'v) list"

text \<open>\<open>number | string\<close>, the type of \<open>expiresIn\<close> and \<open>notBefore\<close>.\<close>

datatype numstr = Num int | Str string

text \<open>Truthiness of an optional string and of an optional \<open>number | string\<close>:
  \<open>undefined\<close>, the empty string and \<open>0\<close> are falsy.\<close>

fun truthy_str :: "string option \<Rightarrow> bool" where
  "truthy_str None = False"
| "truthy_str (Some s) = (s \<noteq> [])"

fun truthy_numstr :: "numstr option \<Rightarrow> bool" where
  "truthy_numstr None = False"
| "truthy_numstr (Some (Num n)) = (n \<noteq> 0)"
| "truthy_numstr (Some (Str s)) = (s \<noteq> [])"

text \<open>\<open>a || b\<close> on an optional value whose right operand is defined.\<close>

definition or_str :: "string option \<Rightarrow> string \<Rightarrow> string" where
  "or_str a b = (case a of Some s \<Rightarrow> (if s \<noteq> [] then s else b) | None \<Rightarrow> b)"

definition or_numstr :: "numstr option \<Rightarrow> numstr \<Rightarrow> numstr" where
  "or_numstr a b = (case a of Some v \<Rightarrow> (if truthy_numstr (Some v) then v else b) | None \<Rightarrow> b)"

text \<open>An object or a function is always truthy.\<close>

definition or_obj :: "'a option \<Rightarrow> 'a \<Rightarrow> 'a" where
  "or_obj a b = (case a of Some v \<Rightarrow> v | None \<Rightarrow> b)"

subsection \<open>crypto.randomBytes(n).toString('hex')\<close>

type_synonym entropy = "nat \<Rightarrow> 8 word"

definition randomBytes :: "nat \<Rightarrow> entropy \<Rightarrow> 8 word list \<times> entropy" where
  "randomBytes n rnd = (map rnd [0..<n], (\<lambda>i. rnd (i + n)))"

definition hexDigit :: "nat \<Rightarrow> char" where
  "hexDigit d = ''0123456789abcdef'' ! d"

definition toHex :: "8 word list \<Rightarrow> string" where
  "toHex bs = concat (map (\<lambda>b. [hexDigit (unat b div 16), hexDigit (unat b mod 16)]) bs)"

subsection \<open>Options, collaborators and the engine\<close>

record SignOptions =
  so_algorithm :: "string option"
  so_expiresIn :: "numstr option"
  so_notBefore :: "numstr option"

record VerifyOptions =
  algorithms :: "string list"

record ('v, 'e) jsonwebtoken =
  jwt_sign :: "'v JwtToken \<Rightarrow> key \<Rightarrow> SignOptions \<Rightarrow> 'e + string"
  jwt_verify :: "string \<Rightarrow> key \<Rightarrow> VerifyOptions \<Rightarrow> 'e + 'v JwtToken"

text \<open>The two fields that the engine declares on express's \<open>Request\<close>.\<close>

record 'v Request =
  token :: "'v JwtToken option"
  signedToken :: "string option"

text \<open>
  The request and the response of one exchange reach each other (\<open>req.res\<close>, \<open>res.req\<close>),
  and the transports are not part of the engine's file: what a \<open>ClientTokenEngine\<close> reads
  from \<open>req\<close> and writes to \<open>res\<close> is one value of type \<open>'c\<close>, the HTTP side of the exchange.
\<close>

record ('v, 'c) ClientTokenEngine =
  getToken :: "'c \<Rightarrow> string option"
  setToken :: "string \<Rightarrow> 'v JwtToken \<Rightarrow> 'c \<Rightarrow> 'c"
  removeToken :: "'c \<Rightarrow> 'c"

text \<open>\<open>JwtEngineOptions\<close>, every field optional (prefix \<open>opt_\<close>), and
  \<open>InternalJwtEngineOptions\<close>. The hook is called with the signed token, the request and
  the response; it returns nothing, and what it does to the response is its result here.\<close>

record ('v, 'c) JwtEngineOptions =
  opt_publicKey :: "key option"
  opt_privateKey :: "key option"
  opt_secretKey :: "key option"
  opt_algorithm :: "string option"
  opt_expiresIn :: "numstr option"
  opt_notBefore :: "numstr option"
  opt_clientTokenEngine :: "('v, 'c) ClientTokenEngine option"
  opt_onNotValidToken :: "(string \<Rightarrow> 'v Request \<Rightarrow> 'c \<Rightarrow> 'c) option"

record ('v, 'c) InternalJwtEngineOptions =
  publicKey :: key
  privateKey :: key
  algorithm :: string
  expiresIn :: numstr
  notBefore :: "numstr option"
  clientTokenEngine :: "('v, 'c) ClientTokenEngine"
  onNotValidToken :: "string \<Rightarrow> 'v Request \<Rightarrow> 'c \<Rightarrow> 'c"

record ('v, 'c) JwtEngine =
  this_options :: "('v, 'c) InternalJwtEngineOptions"
  this_signOptions :: SignOptions
  this_verifyOptions :: VerifyOptions
  this_clientTokenEngine :: "('v, 'c) ClientTokenEngine"

text \<open>
  \<open>processOptions\<close> assigns \<open>options.secretKey\<close> on the caller's object and may call
  \<open>crypto.randomBytes(32)\<close> (only when \<open>options.secretKey\<close> is falsy: \<open>||\<close> is lazy), so it
  returns the internal options, the caller's options as it leaves them, and the entropy left.
\<close>

definition processOptions ::
  "('v, 'c) JwtEngineOptions \<Rightarrow> ('v, 'c) ClientTokenEngine \<Rightarrow> entropy \<Rightarrow>
   ('v, 'c) InternalJwtEngineOptions \<times> ('v, 'c) JwtEngineOptions \<times> entropy" where
  "processOptions options CookieCTE rnd =
    (let generated = randomBytes 32 rnd;
         secretKey = or_str (opt_secretKey options) (toHex (fst generated));
         viaSecretKey =
           (options\<lparr>opt_secretKey := Some secretKey\<rparr>,
            (if truthy_str (opt_secretKey options) then rnd else snd generated),
            secretKey, secretKey);
         (options', rnd', publicKey', privateKey') =
           (case (opt_publicKey options, opt_privateKey options) of
              (Some pub, Some priv) \<Rightarrow>
                (if pub \<noteq> [] \<and> priv \<noteq> [] then (options, rnd, pub, priv) else viaSecretKey)
            | _ \<Rightarrow> viaSecretKey)
     in (\<lparr>publicKey = publicKey',
          privateKey = privateKey',
          algorithm = or_str (opt_algorithm options) ''HS256'',
          expiresIn = or_numstr (opt_expiresIn options) (Str ''1 day''),
          notBefore = opt_notBefore options,
          clientTokenEngine = or_obj (opt_clientTokenEngine options) CookieCTE,
          onNotValidToken = or_obj (opt_onNotValidToken options) (\<lambda>signedToken req res. res)\<rparr>,
         options', rnd'))"

text \<open>The constructor.\<close>

definition new_JwtEngine ::
  "('v, 'c) JwtEngineOptions \<Rightarrow> ('v, 'c) ClientTokenEngine \<Rightarrow> entropy \<Rightarrow>
   ('v, 'c) JwtEngine \<times> ('v, 'c) JwtEngineOptions \<times> entropy" where
  "new_JwtEngine options CookieCTE rnd =
    (let (opts, options', rnd') = processOptions options CookieCTE rnd
     in (\<lparr>this_options = opts,
          this_signOptions =
            \<lparr>so_algorithm = Some (algorithm opts),
             so_expiresIn = Some (expiresIn opts),
             so_notBefore = (if truthy_numstr (notBefore opts) then notBefore opts else None)\<rparr>,
          this_verifyOptions = \<lparr>algorithms = [algorithm opts]\<rparr>,
          this_clientTokenEngine = clientTokenEngine opts\<rparr>,
         options', rnd'))"

subsection \<open>The exchange and the calls made on it\<close>

text \<open>
  The state of one exchange: the request's two fields, the HTTP side that the transport
  and the hook work on, and the log of the calls made to the collaborators, in order (the
  log is not in the source: it is what "calls" and "never calls" are stated on).
\<close>

datatype 'v call =
    GetToken
  | SetToken string "'v JwtToken"
  | RemoveToken
  | JwtSign "'v JwtToken" key SignOptions
  | JwtVerify string key VerifyOptions
  | OnNotValidToken string "'v Request"

record ('v, 'c) exchange =
  req :: "'v Request"
  http :: 'c
  calls :: "'v call list"

definition assign_token :: "'v JwtToken option \<Rightarrow> ('v, 'c) exchange \<Rightarrow> ('v, 'c) exchange" where
  "assign_token t x = x\<lparr>req := (req x)\<lparr>token := t\<rparr>\<rparr>"

definition assign_signedToken :: "string option \<Rightarrow> ('v, 'c) exchange \<Rightarrow> ('v, 'c) exchange" where
  "assign_signedToken s x = x\<lparr>req := (req x)\<lparr>signedToken := s\<rparr>\<rparr>"

definition call_getToken ::
  "('v, 'c) ClientTokenEngine \<Rightarrow> ('v, 'c) exchange \<Rightarrow> string option \<times> ('v, 'c) exchange" where
  "call_getToken cte x = (getToken cte (http x), x\<lparr>calls := calls x @ [GetToken]\<rparr>)"

definition call_setToken ::
  "('v, 'c) ClientTokenEngine \<Rightarrow> string \<Rightarrow> 'v JwtToken \<Rightarrow> ('v, 'c) exchange \<Rightarrow> ('v, 'c) exchange" where
  "call_setToken cte s t x =
     x\<lparr>http := setToken cte s t (http x), calls := calls x @ [SetToken s t]\<rparr>"

definition call_removeToken ::
  "('v, 'c) ClientTokenEngine \<Rightarrow> ('v, 'c) exchange \<Rightarrow> ('v, 'c) exchange" where
  "call_removeToken cte x = x\<lparr>http := removeToken cte (http x), calls := calls x @ [RemoveToken]\<rparr>"

definition call_onNotValidToken ::
  "(string \<Rightarrow> 'v Request \<Rightarrow> 'c \<Rightarrow> 'c) \<Rightarrow> string \<Rightarrow> ('v, 'c) exchange \<Rightarrow> ('v, 'c) exchange" where
  "call_onNotValidToken hook s x =
     x\<lparr>http := hook s (req x) (http x), calls := calls x @ [OnNotValidToken s (req x)]\<rparr>"

definition call_jwt_sign ::
  "('v, 'e) jsonwebtoken \<Rightarrow> 'v JwtToken \<Rightarrow> key \<Rightarrow> SignOptions \<Rightarrow> ('v, 'c) exchange \<Rightarrow>
   ('e + string) \<times> ('v, 'c) exchange" where
  "call_jwt_sign jwt t k so x = (jwt_sign jwt t k so, x\<lparr>calls := calls x @ [JwtSign t k so]\<rparr>)"

definition call_jwt_verify ::
  "('v, 'e) jsonwebtoken \<Rightarrow> string \<Rightarrow> key \<Rightarrow> VerifyOptions \<Rightarrow> ('v, 'c) exchange \<Rightarrow>
   ('e + 'v JwtToken) \<times> ('v, 'c) exchange" where
  "call_jwt_verify jwt s k vo x =
     (jwt_verify jwt s k vo, x\<lparr>calls := calls x @ [JwtVerify s k vo]\<rparr>)"

subsection \<open>sign, verify, authenticate, deauthenticate\<close>

definition sign ::
  "('v, 'e) jsonwebtoken \<Rightarrow> ('v, 'c) JwtEngine \<Rightarrow> 'v JwtToken \<Rightarrow> ('v, 'c) exchange \<Rightarrow>
   ('e + string) \<times> ('v, 'c) exchange" where
  "sign jwt this tok x =
    (case call_jwt_sign jwt tok (privateKey (this_options this)) (this_signOptions this) x of
       (Inl err, x1) \<Rightarrow> (Inl err, x1)
     | (Inr signed_token, x1) \<Rightarrow>
         (let x2 = assign_token (Some tok) x1;
              x3 = assign_signedToken (Some signed_token) x2;
              x4 = call_setToken (this_clientTokenEngine this) signed_token tok x3
          in (Inr signed_token, x4)))"

definition verify ::
  "('v, 'e) jsonwebtoken \<Rightarrow> ('v, 'c) JwtEngine \<Rightarrow> ('v, 'c) exchange \<Rightarrow>
   ('e + unit) \<times> ('v, 'c) exchange" where
  "verify jwt this x =
    (case call_getToken (this_clientTokenEngine this) x of
       (Some signed_token, x1) \<Rightarrow>
         (let x2 = assign_signedToken (Some signed_token) x1
          in (case call_jwt_verify jwt signed_token (publicKey (this_options this))
                     (this_verifyOptions this) x2 of
                (Inr tok, x3) \<Rightarrow> (Inr (), assign_token (Some tok) x3)
              | (Inl e, x3) \<Rightarrow>
                  (let x4 = assign_token None x3;
                       x5 = call_removeToken (this_clientTokenEngine this) x4;
                       x6 = call_onNotValidToken (onNotValidToken (this_options this)) signed_token x5
                   in (Inr (), x6))))
     | (None, x1) \<Rightarrow>
         (let x2 = assign_signedToken None x1;
              x3 = assign_token None x2
          in (Inr (), x3)))"

text \<open>The two closures that the middleware of \<open>generateEngine\<close> attaches to the response;
  \<open>authenticate\<close> has the default argument \<open>token = {}\<close>.\<close>

definition deauthenticate ::
  "('v, 'c) JwtEngine \<Rightarrow> ('v, 'c) exchange \<Rightarrow> ('e + unit) \<times> ('v, 'c) exchange" where
  "deauthenticate jwtEngine x =
    (let x1 = assign_token None x;
         x2 = assign_signedToken None x1;
         x3 = call_removeToken (this_clientTokenEngine jwtEngine) x2
     in (Inr (), x3))"

definition authenticate ::
  "('v, 'e) jsonwebtoken \<Rightarrow> ('v, 'c) JwtEngine \<Rightarrow> 'v JwtToken option \<Rightarrow> ('v, 'c) exchange \<Rightarrow>
   ('e + string) \<times> ('v, 'c) exchange" where
  "authenticate jwt jwtEngine tok x =
     sign jwt jwtEngine (case tok of None \<Rightarrow> [] | Some t \<Rightarrow> t) x"

text \<open>\<open>generateEngine\<close> builds one engine; its middleware runs \<open>verify\<close> of that engine on
  every exchange, before \<open>next()\<close>.\<close>

definition generateEngine ::
  "('v, 'e) jsonwebtoken \<Rightarrow> ('v, 'c) JwtEngineOptions \<Rightarrow> ('v, 'c) ClientTokenEngine \<Rightarrow> entropy \<Rightarrow>
   ('v, 'c) exchange \<Rightarrow> ('e + unit) \<times> ('v, 'c) exchange" where
  "generateEngine jwt options CookieCTE rnd =
     (let jwtEngine = fst (new_JwtEngine options CookieCTE rnd) in verify jwt jwtEngine)"

subsection \<open>Collaborators on which the model is evaluated\<close>

text \<open>
  A signer that knows two payloads and one key, and rejects everything else (as
  \<open>jsonwebtoken\<close> rejects a payload that carries \<open>exp\<close> when \<open>expiresIn\<close> is set, and a
  token it did not sign).
\<close>

definition tableSigner :: "(string, string) jsonwebtoken" where
  "tableSigner =
    \<lparr>jwt_sign = (\<lambda>t k so.
        if k \<noteq> ''k'' then Inl ''secretOrPrivateKey''
        else if t = [(''user'', ''a'')] then Inr ''tokenA''
        else if t = [(''user'', ''b'')] then Inr ''tokenB''
        else Inl ''payload''),
     jwt_verify = (\<lambda>s k vo.
        if k \<noteq> ''k'' then Inl ''invalid signature''
        else if s = ''tokenA'' then Inr [(''user'', ''a'')]
        else if s = ''tokenB'' then Inr [(''user'', ''b'')]
        else Inl ''jwt malformed'')\<rparr>"


text \<open>Three transports that \<open>options.clientTokenEngine\<close> accepts. The first keeps the token
  in one slot that \<open>getToken\<close> reads and \<open>setToken\<close> and \<open>removeToken\<close> write.\<close>

definition slotCTE :: "(string, string option) ClientTokenEngine" where
  "slotCTE =
    \<lparr>getToken = (\<lambda>c. c), setToken = (\<lambda>s t c. Some s), removeToken = (\<lambda>c. None)\<rparr>"

text \<open>The second reads the token from a header of the request, which the server cannot
  write: \<open>setToken\<close> and \<open>removeToken\<close> leave it as it is.\<close>

definition headerCTE :: "(string, string option) ClientTokenEngine" where
  "headerCTE =
    \<lparr>getToken = (\<lambda>c. c), setToken = (\<lambda>s t c. c), removeToken = (\<lambda>c. c)\<rparr>"

text \<open>The third keeps a second cookie beside the token's, set with it; its \<open>removeToken\<close>
  clears the token's cookie only.\<close>

record cookies =
  jwt_cookie :: "string option"
  modifier_cookie :: "string option"

definition pairCTE :: "(string, cookies) ClientTokenEngine" where
  "pairCTE =
    \<lparr>getToken = jwt_cookie,
     setToken = (\<lambda>s t c. \<lparr>jwt_cookie = Some s, modifier_cookie = Some (''m.'' @ s)\<rparr>),
     removeToken = (\<lambda>c. c\<lparr>jwt_cookie := None\<rparr>)\<rparr>"

text \<open>Options that give the secret key \<open>k\<close> and a transport, and the engine built from them.\<close>

definition secretOptions :: "(string, 'c) ClientTokenEngine \<Rightarrow> (string, 'c) JwtEngineOptions" where
  "secretOptions cte =
    \<lparr>opt_publicKey = None, opt_privateKey = None, opt_secretKey = Some ''k'',
     opt_algorithm = None, opt_expiresIn = None, opt_notBefore = None,
     opt_clientTokenEngine = Some cte, opt_onNotValidToken = None\<rparr>"

definition secretEngine :: "(string, 'c) ClientTokenEngine \<Rightarrow> (string, 'c) JwtEngine" where
  "secretEngine cte = fst (new_JwtEngine (secretOptions cte) cte (\<lambda>i. 0))"

text \<open>An exchange as the middleware finds it: nothing resolved, no call made.\<close>

definition incoming :: "'c \<Rightarrow> (string, 'c) exchange" where
  "incoming c = \<lparr>req = \<lparr>token = None, signedToken = None\<rparr>, http = c, calls = []\<rparr>"

section \<open>Properties\<close>

lemmas call_defs =
  call_getToken_def call_setToken_def call_removeToken_def call_onNotValidToken_def
  call_jwt_sign_def call_jwt_verify_def assign_token_def assign_signedToken_def

lemma secretEngine_fields:
  "this_clientTokenEngine (secretEngine cte) = cte"
  "publicKey (this_options (secretEngine cte)) = ''k''"
  "privateKey (this_options (secretEngine cte)) = ''k''"
  "onNotValidToken (this_options (secretEngine cte)) = (\<lambda>signedToken req res. res)"
  "this_verifyOptions (secretEngine cte) = \<lparr>algorithms = [''HS256'']\<rparr>"
  "this_signOptions (secretEngine cte) =
     \<lparr>so_algorithm = Some ''HS256'', so_expiresIn = Some (Str ''1 day''), so_notBefore = None\<rparr>"
  by (simp_all add: secretEngine_def new_JwtEngine_def processOptions_def secretOptions_def
      or_str_def or_numstr_def or_obj_def Let_def)

lemma Request_assigned [simp]:
  "(r :: 'v Request)\<lparr>signedToken := a, token := b\<rparr> = \<lparr>token = b, signedToken = a\<rparr>"
  "(r :: 'v Request)\<lparr>token := b, signedToken := a\<rparr> = \<lparr>token = b, signedToken = a\<rparr>"
  by (cases r, simp)+

lemma length_toHex: "length (toHex bs) = 2 * length bs"
  by (induction bs) (simp_all add: toHex_def)

lemma hexDigit_in: "d < 16 \<Longrightarrow> hexDigit d \<in> set ''0123456789abcdef''"
  unfolding hexDigit_def by (rule nth_mem) simp

lemma set_toHex: "set (toHex bs) \<subseteq> set ''0123456789abcdef''"
proof (induction bs)
  case Nil
  show ?case by (simp add: toHex_def)
next
  case (Cons b bs)
  have "unat b < 256" using unsigned_less [of b, where ?'a = nat] by simp
  then have hi: "unat b div 16 < 16" by simp
  have lo: "unat b mod 16 < 16" by simp
  from Cons hexDigit_in [OF hi] hexDigit_in [OF lo] show ?case
    by (simp add: toHex_def)
qed

text \<open>
  C4. When the transport's \<open>getToken\<close> answers \<open>null\<close>, \<open>verify\<close> resolves normally with
  \<open>req.token\<close> and \<open>req.signedToken\<close> both \<open>null\<close>; the HTTP side is as it was, and the only
  call made is \<open>getToken\<close>: neither \<open>jwt.verify\<close>, nor \<open>setToken\<close> or \<open>removeToken\<close>, nor the
  hook.
\<close>

theorem verify_no_token:
  assumes "getToken (this_clientTokenEngine this) (http x) = None"
  shows "fst (verify jwt this x) = Inr () \<and>
         token (req (snd (verify jwt this x))) = None \<and>
         signedToken (req (snd (verify jwt this x))) = None \<and>
         http (snd (verify jwt this x)) = http x \<and>
         calls (snd (verify jwt this x)) = calls x @ [GetToken]"
  using assms by (simp add: verify_def call_defs)

theorem verify_no_token_witness:
  "getToken (this_clientTokenEngine (secretEngine slotCTE)) (http (incoming None)) = None \<and>
   token (req (snd (verify tableSigner (secretEngine slotCTE) (incoming None)))) = None \<and>
   signedToken (req (snd (verify tableSigner (secretEngine slotCTE) (incoming None)))) = None \<and>
   http (snd (verify tableSigner (secretEngine slotCTE) (incoming None))) = None \<and>
   calls (snd (verify tableSigner (secretEngine slotCTE) (incoming None))) = [GetToken]"
proof -
  have h: "getToken (this_clientTokenEngine (secretEngine slotCTE)) (http (incoming None)) = None"
    by (simp add: secretEngine_fields slotCTE_def incoming_def)
  from verify_no_token [OF h, of tableSigner] h show ?thesis
    by (simp add: incoming_def)
qed

text \<open>
  C1. When the transport holds a signed token and \<open>jwt.verify\<close> rejects it, \<open>verify\<close>
  resolves normally (the rejection is caught, not passed to the caller) with \<open>req.token\<close>
  \<open>null\<close> and \<open>req.signedToken\<close> the raw token; \<open>removeToken\<close> is called on the response,
  and then the configured hook with the raw token, the request (already resolved) and the
  response (the token already removed).
\<close>

theorem verify_rejected_token:
  assumes "getToken (this_clientTokenEngine this) (http x) = Some s"
    and "jwt_verify jwt s (publicKey (this_options this)) (this_verifyOptions this) = Inl err"
  shows "fst (verify jwt this x) = Inr () \<and>
         token (req (snd (verify jwt this x))) = None \<and>
         signedToken (req (snd (verify jwt this x))) = Some s \<and>
         http (snd (verify jwt this x)) =
           onNotValidToken (this_options this) s \<lparr>token = None, signedToken = Some s\<rparr>
             (removeToken (this_clientTokenEngine this) (http x)) \<and>
         calls (snd (verify jwt this x)) =
           calls x @ [GetToken,
                      JwtVerify s (publicKey (this_options this)) (this_verifyOptions this),
                      RemoveToken,
                      OnNotValidToken s \<lparr>token = None, signedToken = Some s\<rparr>]"
  using assms by (simp add: verify_def call_defs)

theorem verify_rejected_token_witness:
  "getToken (this_clientTokenEngine (secretEngine slotCTE)) (http (incoming (Some ''forged'')))
     = Some ''forged'' \<and>
   jwt_verify tableSigner ''forged'' (publicKey (this_options (secretEngine slotCTE)))
     (this_verifyOptions (secretEngine slotCTE)) = Inl ''jwt malformed'' \<and>
   fst (verify tableSigner (secretEngine slotCTE) (incoming (Some ''forged''))) = Inr () \<and>
   req (snd (verify tableSigner (secretEngine slotCTE) (incoming (Some ''forged'')))) =
     \<lparr>token = None, signedToken = Some ''forged''\<rparr> \<and>
   http (snd (verify tableSigner (secretEngine slotCTE) (incoming (Some ''forged'')))) = None \<and>
   calls (snd (verify tableSigner (secretEngine slotCTE) (incoming (Some ''forged'')))) =
     [GetToken, JwtVerify ''forged'' ''k'' \<lparr>algorithms = [''HS256'']\<rparr>, RemoveToken,
      OnNotValidToken ''forged'' \<lparr>token = None, signedToken = Some ''forged''\<rparr>]"
proof -
  let ?e = "secretEngine slotCTE :: (string, string option) JwtEngine"
  have g: "getToken (this_clientTokenEngine ?e) (http (incoming (Some ''forged''))) = Some ''forged''"
    by (simp add: secretEngine_fields slotCTE_def incoming_def)
  have v: "jwt_verify tableSigner ''forged'' (publicKey (this_options ?e)) (this_verifyOptions ?e)
             = Inl ''jwt malformed''"
    by (simp add: secretEngine_fields tableSigner_def)
  from verify_rejected_token [OF g v] g v show ?thesis
    by (simp add: secretEngine_fields slotCTE_def incoming_def)
qed

text \<open>
  C3. \<open>sign\<close> (what \<open>res.authenticate\<close> runs) first calls \<open>jwt.sign\<close> with the payload, the
  private key and the sign options. If \<open>jwt.sign\<close> fails, the promise is rejected with that
  error. If it succeeds, \<open>req.token\<close> is the payload, \<open>req.signedToken\<close> the signed token,
  the transport's \<open>setToken\<close> has been called with both on the response, and the promise
  resolves to the signed token.
\<close>

theorem sign_outcome:
  "take (Suc (length (calls x))) (calls (snd (sign jwt this tok x))) =
     calls x @ [JwtSign tok (privateKey (this_options this)) (this_signOptions this)] \<and>
   (\<forall>err. jwt_sign jwt tok (privateKey (this_options this)) (this_signOptions this) = Inl err \<longrightarrow>
      fst (sign jwt this tok x) = Inl err) \<and>
   (\<forall>s. jwt_sign jwt tok (privateKey (this_options this)) (this_signOptions this) = Inr s \<longrightarrow>
      fst (sign jwt this tok x) = Inr s \<and>
      token (req (snd (sign jwt this tok x))) = Some tok \<and>
      signedToken (req (snd (sign jwt this tok x))) = Some s \<and>
      http (snd (sign jwt this tok x)) = setToken (this_clientTokenEngine this) s tok (http x) \<and>
      calls (snd (sign jwt this tok x)) =
        calls x @ [JwtSign tok (privateKey (this_options this)) (this_signOptions this),
                   SetToken s tok])"
  by (cases "jwt_sign jwt tok (privateKey (this_options this)) (this_signOptions this)")
     (simp_all add: sign_def call_defs)

theorem sign_outcome_witness:
  "jwt_sign tableSigner [(''exp'', ''1'')] (privateKey (this_options (secretEngine slotCTE)))
     (this_signOptions (secretEngine slotCTE)) = Inl ''payload'' \<and>
   fst (sign tableSigner (secretEngine slotCTE) [(''exp'', ''1'')] (incoming None)) = Inl ''payload'' \<and>
   jwt_sign tableSigner [(''user'', ''a'')] (privateKey (this_options (secretEngine slotCTE)))
     (this_signOptions (secretEngine slotCTE)) = Inr ''tokenA'' \<and>
   fst (sign tableSigner (secretEngine slotCTE) [(''user'', ''a'')] (incoming None)) = Inr ''tokenA'' \<and>
   req (snd (sign tableSigner (secretEngine slotCTE) [(''user'', ''a'')] (incoming None))) =
     \<lparr>token = Some [(''user'', ''a'')], signedToken = Some ''tokenA''\<rparr> \<and>
   http (snd (sign tableSigner (secretEngine slotCTE) [(''user'', ''a'')] (incoming None))) =
     Some ''tokenA''"
proof -
  let ?e = "secretEngine slotCTE :: (string, string option) JwtEngine"
  let ?x = "incoming None :: (string, string option) exchange"
  have bad: "jwt_sign tableSigner [(''exp'', ''1'')] (privateKey (this_options ?e))
               (this_signOptions ?e) = Inl ''payload''"
    by (simp add: secretEngine_fields tableSigner_def)
  have good: "jwt_sign tableSigner [(''user'', ''a'')] (privateKey (this_options ?e))
                (this_signOptions ?e) = Inr ''tokenA''"
    by (simp add: secretEngine_fields tableSigner_def)
  have r: "fst (sign tableSigner ?e [(''exp'', ''1'')] ?x) = Inl ''payload''"
    using sign_outcome [of ?x tableSigner ?e "[(''exp'', ''1'')]"] bad by blast
  have a: "fst (sign tableSigner ?e [(''user'', ''a'')] ?x) = Inr ''tokenA'' \<and>
           token (req (snd (sign tableSigner ?e [(''user'', ''a'')] ?x))) = Some [(''user'', ''a'')] \<and>
           signedToken (req (snd (sign tableSigner ?e [(''user'', ''a'')] ?x))) = Some ''tokenA'' \<and>
           http (snd (sign tableSigner ?e [(''user'', ''a'')] ?x)) =
             setToken (this_clientTokenEngine ?e) ''tokenA'' [(''user'', ''a'')] (http ?x)"
    using sign_outcome [of ?x tableSigner ?e "[(''user'', ''a'')]"] good by blast
  have q: "req (snd (sign tableSigner ?e [(''user'', ''a'')] ?x)) =
             \<lparr>token = Some [(''user'', ''a'')], signedToken = Some ''tokenA''\<rparr>"
    using a by (cases "req (snd (sign tableSigner ?e [(''user'', ''a'')] ?x))") simp
  from bad good r a q show ?thesis
    by (simp add: secretEngine_fields slotCTE_def)
qed

text \<open>
  C10. If \<open>jwt.sign\<close> fails, \<open>sign\<close> is rejected with that error before any assignment:
  \<open>req.token\<close> and \<open>req.signedToken\<close> keep their values, the HTTP side is as it was, and the
  only call made is the one to \<open>jwt.sign\<close>: \<open>setToken\<close> is not called.
\<close>

theorem sign_failure_atomic:
  assumes "jwt_sign jwt tok (privateKey (this_options this)) (this_signOptions this) = Inl err"
  shows "fst (sign jwt this tok x) = Inl err \<and>
         req (snd (sign jwt this tok x)) = req x \<and>
         http (snd (sign jwt this tok x)) = http x \<and>
         calls (snd (sign jwt this tok x)) =
           calls x @ [JwtSign tok (privateKey (this_options this)) (this_signOptions this)] \<and>
         fst (authenticate jwt this (Some tok) x) = Inl err \<and>
         req (snd (authenticate jwt this (Some tok) x)) = req x \<and>
         http (snd (authenticate jwt this (Some tok) x)) = http x"
  using assms by (simp add: authenticate_def sign_def call_defs)

theorem sign_failure_atomic_witness:
  "jwt_sign tableSigner [(''exp'', ''1'')] (privateKey (this_options (secretEngine slotCTE)))
     (this_signOptions (secretEngine slotCTE)) = Inl ''payload'' \<and>
   fst (sign tableSigner (secretEngine slotCTE) [(''exp'', ''1'')]
     \<lparr>req = \<lparr>token = Some [(''user'', ''a'')], signedToken = Some ''tokenA''\<rparr>,
      http = Some ''tokenA'', calls = []\<rparr>) = Inl ''payload'' \<and>
   req (snd (sign tableSigner (secretEngine slotCTE) [(''exp'', ''1'')]
     \<lparr>req = \<lparr>token = Some [(''user'', ''a'')], signedToken = Some ''tokenA''\<rparr>,
      http = Some ''tokenA'', calls = []\<rparr>)) =
     \<lparr>token = Some [(''user'', ''a'')], signedToken = Some ''tokenA''\<rparr> \<and>
   http (snd (sign tableSigner (secretEngine slotCTE) [(''exp'', ''1'')]
     \<lparr>req = \<lparr>token = Some [(''user'', ''a'')], signedToken = Some ''tokenA''\<rparr>,
      http = Some ''tokenA'', calls = []\<rparr>)) = Some ''tokenA'' \<and>
   calls (snd (sign tableSigner (secretEngine slotCTE) [(''exp'', ''1'')]
     \<lparr>req = \<lparr>token = Some [(''user'', ''a'')], signedToken = Some ''tokenA''\<rparr>,
      http = Some ''tokenA'', calls = []\<rparr>)) =
     [JwtSign [(''exp'', ''1'')] ''k''
        \<lparr>so_algorithm = Some ''HS256'', so_expiresIn = Some (Str ''1 day''), so_notBefore = None\<rparr>]"
proof -
  let ?e = "secretEngine slotCTE :: (string, string option) JwtEngine"
  have bad: "jwt_sign tableSigner [(''exp'', ''1'')] (privateKey (this_options ?e))
               (this_signOptions ?e) = Inl ''payload''"
    by (simp add: secretEngine_fields tableSigner_def)
  from sign_failure_atomic [OF bad] bad show ?thesis
    by (simp add: secretEngine_fields)
qed

text \<open>
  C5. After \<open>verify\<close>, \<open>req.signedToken\<close> is what the transport's \<open>getToken\<close> answered, in
  every branch. So the two outcomes with \<open>req.token\<close> \<open>null\<close> differ in \<open>req.signedToken\<close>:
  with no token in the transport it is \<open>null\<close>, with a token that \<open>jwt.verify\<close> rejects it is
  that raw token; and whenever \<open>req.token\<close> is not \<open>null\<close>, \<open>req.signedToken\<close> is not \<open>null\<close>.
\<close>

theorem verify_resolved_state:
  "signedToken (req (snd (verify jwt this x))) = getToken (this_clientTokenEngine this) (http x) \<and>
   (getToken (this_clientTokenEngine this) (http x) = None \<longrightarrow>
      token (req (snd (verify jwt this x))) = None \<and>
      signedToken (req (snd (verify jwt this x))) = None) \<and>
   (\<forall>s err. getToken (this_clientTokenEngine this) (http x) = Some s \<longrightarrow>
      jwt_verify jwt s (publicKey (this_options this)) (this_verifyOptions this) = Inl err \<longrightarrow>
      token (req (snd (verify jwt this x))) = None \<and>
      signedToken (req (snd (verify jwt this x))) = Some s) \<and>
   (token (req (snd (verify jwt this x))) \<noteq> None \<longrightarrow>
      signedToken (req (snd (verify jwt this x))) \<noteq> None)"
proof (cases "getToken (this_clientTokenEngine this) (http x)")
  case None
  then show ?thesis by (simp add: verify_def call_defs)
next
  case (Some s)
  then show ?thesis
    by (cases "jwt_verify jwt s (publicKey (this_options this)) (this_verifyOptions this)")
       (simp_all add: verify_def call_defs)
qed

theorem verify_resolved_state_witness:
  "req (snd (verify tableSigner (secretEngine slotCTE) (incoming None))) =
     \<lparr>token = None, signedToken = None\<rparr> \<and>
   req (snd (verify tableSigner (secretEngine slotCTE) (incoming (Some ''forged'')))) =
     \<lparr>token = None, signedToken = Some ''forged''\<rparr> \<and>
   token (req (snd (verify tableSigner (secretEngine slotCTE) (incoming (Some ''tokenA''))))) \<noteq> None \<and>
   signedToken (req (snd (verify tableSigner (secretEngine slotCTE) (incoming (Some ''tokenA''))))) =
     Some ''tokenA''"
proof -
  let ?e = "secretEngine slotCTE :: (string, string option) JwtEngine"
  let ?v = "\<lambda>c. req (snd (verify tableSigner ?e (incoming c)))"
  have g: "\<And>c. getToken (this_clientTokenEngine ?e) (http (incoming c :: (string, string option) exchange)) = c"
    by (simp add: secretEngine_fields slotCTE_def incoming_def)
  have rej: "jwt_verify tableSigner ''forged'' (publicKey (this_options ?e)) (this_verifyOptions ?e)
               = Inl ''jwt malformed''"
    by (simp add: secretEngine_fields tableSigner_def)
  have none: "token (?v None) = None \<and> signedToken (?v None) = None"
    using verify_resolved_state [of tableSigner ?e "incoming None"] g [of None] by simp
  have forged: "token (?v (Some ''forged'')) = None \<and> signedToken (?v (Some ''forged'')) = Some ''forged''"
    using verify_resolved_state [of tableSigner ?e "incoming (Some ''forged'')"]
      g [of "Some ''forged''"] rej by blast
  have sig: "signedToken (?v (Some ''tokenA'')) = Some ''tokenA''"
    using verify_resolved_state [of tableSigner ?e "incoming (Some ''tokenA'')"]
      g [of "Some ''tokenA''"] by simp
  have tok: "token (?v (Some ''tokenA'')) \<noteq> None"
    by (simp add: verify_def call_defs secretEngine_fields slotCTE_def incoming_def tableSigner_def)
  have n: "?v None = \<lparr>token = None, signedToken = None\<rparr>"
    using none by (cases "?v None") simp
  have f: "?v (Some ''forged'') = \<lparr>token = None, signedToken = Some ''forged''\<rparr>"
    using forged by (cases "?v (Some ''forged'')") simp
  from n f tok sig show ?thesis by simp
qed




text \<open>
  C8. When \<open>publicKey\<close> and \<open>privateKey\<close> are not both given (\<open>!(publicKey && privateKey)\<close>:
  one of them is \<open>undefined\<close> or the empty string), \<open>processOptions\<close> takes one key for both.
  If \<open>secretKey\<close> is given (a non-empty string) that key is \<open>secretKey\<close> itself and
  \<open>crypto.randomBytes\<close> is not called. If \<open>secretKey\<close> is \<open>undefined\<close> or empty, the key is the
  hexadecimal text, 64 characters out of \<open>0-9a-f\<close>, of the 32 bytes that one call of \<open>crypto.randomBytes(32)\<close>
  draws. In both cases the key is stored in \<open>options.secretKey\<close>. Only when both keys are
  given are they kept as they are, with nothing drawn and the options untouched. The
  constructor calls \<open>processOptions\<close> once, draws nothing more, and keeps the result in the
  engine's read-only options, from which \<open>sign\<close> and \<open>verify\<close> take their keys; the
  middleware that \<open>generateEngine\<close> returns runs \<open>verify\<close> of that one engine on every
  exchange.
\<close>

theorem processOptions_symmetric_key:
  "(opt_publicKey options = None \<or> opt_publicKey options = Some [] \<or>
    opt_privateKey options = None \<or> opt_privateKey options = Some [] \<longrightarrow>
      publicKey (fst (processOptions options CookieCTE rnd)) =
        privateKey (fst (processOptions options CookieCTE rnd)) \<and>
      (\<forall>k. opt_secretKey options = Some k \<longrightarrow> k \<noteq> [] \<longrightarrow>
         privateKey (fst (processOptions options CookieCTE rnd)) = k \<and>
         snd (snd (processOptions options CookieCTE rnd)) = rnd) \<and>
      (opt_secretKey options = None \<or> opt_secretKey options = Some [] \<longrightarrow>
         privateKey (fst (processOptions options CookieCTE rnd)) = toHex (map rnd [0..<32]) \<and>
         snd (snd (processOptions options CookieCTE rnd)) = (\<lambda>i. rnd (i + 32))) \<and>
      fst (snd (processOptions options CookieCTE rnd)) =
        options\<lparr>opt_secretKey := Some (privateKey (fst (processOptions options CookieCTE rnd)))\<rparr>) \<and>
   (\<forall>pub priv. opt_publicKey options = Some pub \<longrightarrow> opt_privateKey options = Some priv \<longrightarrow>
      pub \<noteq> [] \<longrightarrow> priv \<noteq> [] \<longrightarrow>
      publicKey (fst (processOptions options CookieCTE rnd)) = pub \<and>
      privateKey (fst (processOptions options CookieCTE rnd)) = priv \<and>
      fst (snd (processOptions options CookieCTE rnd)) = options \<and>
      snd (snd (processOptions options CookieCTE rnd)) = rnd) \<and>
   length (toHex (map rnd [0..<32])) = 64 \<and>
   set (toHex (map rnd [0..<32])) \<subseteq> set ''0123456789abcdef'' \<and>
   new_JwtEngine options CookieCTE rnd =
     (fst (new_JwtEngine options CookieCTE rnd),
      snd (processOptions options CookieCTE rnd)) \<and>
   this_options (fst (new_JwtEngine options CookieCTE rnd)) =
     fst (processOptions options CookieCTE rnd) \<and>
   generateEngine jwt options CookieCTE rnd =
     verify jwt (fst (new_JwtEngine options CookieCTE rnd))"
proof -
  have len: "length (toHex (map rnd [0..<32])) = 64"
    by (simp add: length_toHex)
  have hexs: "set (toHex (map rnd [0..<32])) \<subseteq> set ''0123456789abcdef''"
    by (rule set_toHex)
  have eng: "new_JwtEngine options CookieCTE rnd =
               (fst (new_JwtEngine options CookieCTE rnd),
                snd (processOptions options CookieCTE rnd)) \<and>
             this_options (fst (new_JwtEngine options CookieCTE rnd)) =
               fst (processOptions options CookieCTE rnd)"
    by (simp add: new_JwtEngine_def split: prod.splits)
  have mw: "generateEngine jwt options CookieCTE rnd =
              verify jwt (fst (new_JwtEngine options CookieCTE rnd))"
    by (simp add: generateEngine_def)
  have both: "\<forall>pub priv. opt_publicKey options = Some pub \<longrightarrow> opt_privateKey options = Some priv \<longrightarrow>
                pub \<noteq> [] \<longrightarrow> priv \<noteq> [] \<longrightarrow>
                publicKey (fst (processOptions options CookieCTE rnd)) = pub \<and>
                privateKey (fst (processOptions options CookieCTE rnd)) = priv \<and>
                fst (snd (processOptions options CookieCTE rnd)) = options \<and>
                snd (snd (processOptions options CookieCTE rnd)) = rnd"
    by (simp add: processOptions_def Let_def)
  define secret where
    "secret = (case opt_secretKey options of
                 None \<Rightarrow> toHex (map rnd [0..<32])
               | Some k \<Rightarrow> if k = [] then toHex (map rnd [0..<32]) else k)"
  define left where
    "left = (case opt_secretKey options of
               None \<Rightarrow> (\<lambda>i. rnd (i + 32))
             | Some k \<Rightarrow> if k = [] then (\<lambda>i. rnd (i + 32)) else rnd)"
  have one: "publicKey (fst (processOptions options CookieCTE rnd)) =
               privateKey (fst (processOptions options CookieCTE rnd)) \<and>
             (\<forall>k. opt_secretKey options = Some k \<longrightarrow> k \<noteq> [] \<longrightarrow>
                privateKey (fst (processOptions options CookieCTE rnd)) = k \<and>
                snd (snd (processOptions options CookieCTE rnd)) = rnd) \<and>
             (opt_secretKey options = None \<or> opt_secretKey options = Some [] \<longrightarrow>
                privateKey (fst (processOptions options CookieCTE rnd)) =
                  toHex (map rnd [0..<32]) \<and>
                snd (snd (processOptions options CookieCTE rnd)) = (\<lambda>i. rnd (i + 32))) \<and>
             fst (snd (processOptions options CookieCTE rnd)) =
               options\<lparr>opt_secretKey :=
                 Some (privateKey (fst (processOptions options CookieCTE rnd)))\<rparr>"
    if nb: "opt_publicKey options = None \<or> opt_publicKey options = Some [] \<or>
            opt_privateKey options = None \<or> opt_privateKey options = Some []"
  proof -
    have via: "processOptions options CookieCTE rnd =
                 (\<lparr>publicKey = secret, privateKey = secret,
                   algorithm = or_str (opt_algorithm options) ''HS256'',
                   expiresIn = or_numstr (opt_expiresIn options) (Str ''1 day''),
                   notBefore = opt_notBefore options,
                   clientTokenEngine = or_obj (opt_clientTokenEngine options) CookieCTE,
                   onNotValidToken =
                     or_obj (opt_onNotValidToken options) (\<lambda>signedToken req res. res)\<rparr>,
                  options\<lparr>opt_secretKey := Some secret\<rparr>, left)"
    proof (cases "opt_publicKey options")
      case None
      then show ?thesis
        by (simp add: processOptions_def randomBytes_def or_str_def Let_def secret_def left_def
            split: option.splits)
    next
      case pub: (Some pub)
      show ?thesis
      proof (cases "opt_privateKey options")
        case None
        with pub show ?thesis
          by (simp add: processOptions_def randomBytes_def or_str_def Let_def secret_def left_def
              split: option.splits)
      next
        case (Some priv)
        with pub nb have "pub = [] \<or> priv = []" by simp
        with pub Some show ?thesis
          by (auto simp add: processOptions_def randomBytes_def or_str_def Let_def secret_def
              left_def split: option.splits)
      qed
    qed
    have given: "\<forall>k. opt_secretKey options = Some k \<longrightarrow> k \<noteq> [] \<longrightarrow>
                   privateKey (fst (processOptions options CookieCTE rnd)) = k \<and>
                   snd (snd (processOptions options CookieCTE rnd)) = rnd"
      by (simp add: via secret_def left_def)
    have drawn: "opt_secretKey options = None \<or> opt_secretKey options = Some [] \<longrightarrow>
                   privateKey (fst (processOptions options CookieCTE rnd)) =
                     toHex (map rnd [0..<32]) \<and>
                   snd (snd (processOptions options CookieCTE rnd)) = (\<lambda>i. rnd (i + 32))"
      by (auto simp add: via secret_def left_def)
    have same: "publicKey (fst (processOptions options CookieCTE rnd)) =
                  privateKey (fst (processOptions options CookieCTE rnd)) \<and>
                fst (snd (processOptions options CookieCTE rnd)) =
                  options\<lparr>opt_secretKey :=
                    Some (privateKey (fst (processOptions options CookieCTE rnd)))\<rparr>"
      by (simp add: via)
    from given drawn same show ?thesis by blast
  qed
  from len hexs eng mw both one show ?thesis by blast
qed

text \<open>The witness takes six option records: a secret key alone; a secret key beside a
  public key without a private key; no key at all; an empty secret key; an empty private
  key beside a public key and a secret key; and a public key with a private key.\<close>

theorem processOptions_symmetric_key_witness:
  "publicKey (fst (processOptions (secretOptions slotCTE) slotCTE (\<lambda>i. of_nat (7 * i + 250))))
     = ''k'' \<and>
   privateKey (fst (processOptions (secretOptions slotCTE) slotCTE (\<lambda>i. of_nat (7 * i + 250))))
     = ''k'' \<and>
   snd (snd (processOptions (secretOptions slotCTE) slotCTE (\<lambda>i. of_nat (7 * i + 250)))) 0
     = 250 \<and>
   publicKey (fst (processOptions ((secretOptions slotCTE)\<lparr>opt_publicKey := Some ''pub''\<rparr>)
     slotCTE (\<lambda>i. of_nat (7 * i + 250)))) = ''k'' \<and>
   privateKey (fst (processOptions ((secretOptions slotCTE)\<lparr>opt_publicKey := Some ''pub''\<rparr>)
     slotCTE (\<lambda>i. of_nat (7 * i + 250)))) = ''k'' \<and>
   publicKey (fst (processOptions ((secretOptions slotCTE)\<lparr>opt_secretKey := None\<rparr>) slotCTE
     (\<lambda>i. of_nat (7 * i + 250)))) =
     ''fa01080f161d242b323940474e555c636a71787f868d949ba2a9b0b7bec5ccd3'' \<and>
   privateKey (fst (processOptions ((secretOptions slotCTE)\<lparr>opt_secretKey := None\<rparr>) slotCTE
     (\<lambda>i. of_nat (7 * i + 250)))) =
     ''fa01080f161d242b323940474e555c636a71787f868d949ba2a9b0b7bec5ccd3'' \<and>
   opt_secretKey (fst (snd (processOptions ((secretOptions slotCTE)\<lparr>opt_secretKey := None\<rparr>)
     slotCTE (\<lambda>i. of_nat (7 * i + 250))))) =
     Some ''fa01080f161d242b323940474e555c636a71787f868d949ba2a9b0b7bec5ccd3'' \<and>
   snd (snd (processOptions ((secretOptions slotCTE)\<lparr>opt_secretKey := None\<rparr>) slotCTE
     (\<lambda>i. of_nat (7 * i + 250)))) 0 = 218 \<and>
   privateKey (fst (processOptions ((secretOptions slotCTE)\<lparr>opt_secretKey := Some []\<rparr>) slotCTE
     (\<lambda>i. of_nat (7 * i + 250)))) =
     ''fa01080f161d242b323940474e555c636a71787f868d949ba2a9b0b7bec5ccd3'' \<and>
   privateKey (fst (processOptions
     ((secretOptions slotCTE)\<lparr>opt_publicKey := Some ''pub'', opt_privateKey := Some []\<rparr>)
     slotCTE (\<lambda>i. of_nat (7 * i + 250)))) = ''k'' \<and>
   publicKey (fst (processOptions
     ((secretOptions slotCTE)\<lparr>opt_publicKey := Some ''pub'', opt_privateKey := Some ''priv''\<rparr>)
     slotCTE (\<lambda>i. of_nat (7 * i + 250)))) = ''pub'' \<and>
   privateKey (fst (processOptions
     ((secretOptions slotCTE)\<lparr>opt_publicKey := Some ''pub'', opt_privateKey := Some ''priv''\<rparr>)
     slotCTE (\<lambda>i. of_nat (7 * i + 250)))) = ''priv''"
proof -
  let ?rnd = "(\<lambda>i. of_nat (7 * i + 250)) :: entropy"
  let ?o1 = "secretOptions slotCTE"
  let ?o2 = "(secretOptions slotCTE)\<lparr>opt_publicKey := Some ''pub''\<rparr>"
  let ?o3 = "(secretOptions slotCTE)\<lparr>opt_secretKey := None\<rparr>"
  let ?o4 = "(secretOptions slotCTE)\<lparr>opt_secretKey := Some []\<rparr>"
  let ?o5 = "(secretOptions slotCTE)\<lparr>opt_publicKey := Some ''pub'', opt_privateKey := Some []\<rparr>"
  let ?o6 = "(secretOptions slotCTE)\<lparr>opt_publicKey := Some ''pub'',
               opt_privateKey := Some ''priv''\<rparr>"
  have hex: "toHex (map ?rnd [0..<32]) =
               ''fa01080f161d242b323940474e555c636a71787f868d949ba2a9b0b7bec5ccd3''"
    by code_simp
  have h1: "opt_publicKey ?o1 = None \<or> opt_publicKey ?o1 = Some [] \<or>
            opt_privateKey ?o1 = None \<or> opt_privateKey ?o1 = Some []"
    and h2: "opt_publicKey ?o2 = None \<or> opt_publicKey ?o2 = Some [] \<or>
            opt_privateKey ?o2 = None \<or> opt_privateKey ?o2 = Some []"
    and h3: "opt_publicKey ?o3 = None \<or> opt_publicKey ?o3 = Some [] \<or>
            opt_privateKey ?o3 = None \<or> opt_privateKey ?o3 = Some []"
    and h4: "opt_publicKey ?o4 = None \<or> opt_publicKey ?o4 = Some [] \<or>
            opt_privateKey ?o4 = None \<or> opt_privateKey ?o4 = Some []"
    and h5: "opt_publicKey ?o5 = None \<or> opt_publicKey ?o5 = Some [] \<or>
            opt_privateKey ?o5 = None \<or> opt_privateKey ?o5 = Some []"
    by (simp_all add: secretOptions_def)
  have k1: "opt_secretKey ?o1 = Some ''k''" and k2: "opt_secretKey ?o2 = Some ''k''"
    and k3: "opt_secretKey ?o3 = None" and k4: "opt_secretKey ?o4 = Some []"
    and k5: "opt_secretKey ?o5 = Some ''k''"
    by (simp_all add: secretOptions_def)
  have p6: "opt_publicKey ?o6 = Some ''pub''" and q6: "opt_privateKey ?o6 = Some ''priv''"
    by simp_all
  note t1 = processOptions_symmetric_key
              [where options = ?o1 and CookieCTE = slotCTE and rnd = ?rnd and jwt = tableSigner,
               THEN conjunct1, THEN mp, OF h1]
  note t2 = processOptions_symmetric_key
              [where options = ?o2 and CookieCTE = slotCTE and rnd = ?rnd and jwt = tableSigner,
               THEN conjunct1, THEN mp, OF h2]
  note t3 = processOptions_symmetric_key
              [where options = ?o3 and CookieCTE = slotCTE and rnd = ?rnd and jwt = tableSigner,
               THEN conjunct1, THEN mp, OF h3]
  note t4 = processOptions_symmetric_key
              [where options = ?o4 and CookieCTE = slotCTE and rnd = ?rnd and jwt = tableSigner,
               THEN conjunct1, THEN mp, OF h4]
  note t5 = processOptions_symmetric_key
              [where options = ?o5 and CookieCTE = slotCTE and rnd = ?rnd and jwt = tableSigner,
               THEN conjunct1, THEN mp, OF h5]
  note t6 = processOptions_symmetric_key
              [where options = ?o6 and CookieCTE = slotCTE and rnd = ?rnd and jwt = tableSigner,
               THEN conjunct2, THEN conjunct1, THEN spec, THEN spec, THEN mp, THEN mp, OF p6 q6]
  have r1: "publicKey (fst (processOptions ?o1 slotCTE ?rnd)) = ''k'' \<and>
            privateKey (fst (processOptions ?o1 slotCTE ?rnd)) = ''k'' \<and>
            snd (snd (processOptions ?o1 slotCTE ?rnd)) = ?rnd"
    using t1 k1 by simp
  have r2: "publicKey (fst (processOptions ?o2 slotCTE ?rnd)) = ''k'' \<and>
            privateKey (fst (processOptions ?o2 slotCTE ?rnd)) = ''k''"
    using t2 k2 by simp
  have r3: "publicKey (fst (processOptions ?o3 slotCTE ?rnd)) = toHex (map ?rnd [0..<32]) \<and>
            privateKey (fst (processOptions ?o3 slotCTE ?rnd)) = toHex (map ?rnd [0..<32]) \<and>
            opt_secretKey (fst (snd (processOptions ?o3 slotCTE ?rnd))) =
              Some (toHex (map ?rnd [0..<32])) \<and>
            snd (snd (processOptions ?o3 slotCTE ?rnd)) = (\<lambda>i. ?rnd (i + 32))"
    using t3 k3 by simp
  have r4: "privateKey (fst (processOptions ?o4 slotCTE ?rnd)) = toHex (map ?rnd [0..<32])"
    using t4 k4 by simp
  have r5: "privateKey (fst (processOptions ?o5 slotCTE ?rnd)) = ''k''"
    using t5 k5 by simp
  have r6: "publicKey (fst (processOptions ?o6 slotCTE ?rnd)) = ''pub'' \<and>
            privateKey (fst (processOptions ?o6 slotCTE ?rnd)) = ''priv''"
    using t6 by simp
  from r1 r2 r3 r4 r5 r6 hex show ?thesis by simp
qed

text \<open>
  C6 (amended). \<open>res.deauthenticate\<close> resolves normally, sets \<open>req.token\<close> and
  \<open>req.signedToken\<close> to \<open>null\<close>, and calls the transport's \<open>removeToken\<close> once on the
  response; it does nothing else. What becomes of a second, paired token is what the
  configured transport's \<open>removeToken\<close> does to it: the engine calls no other operation.
\<close>

theorem deauthenticate_effect:
  "fst (deauthenticate this x) = Inr () \<and>
   token (req (snd (deauthenticate this x))) = None \<and>
   signedToken (req (snd (deauthenticate this x))) = None \<and>
   http (snd (deauthenticate this x)) = removeToken (this_clientTokenEngine this) (http x) \<and>
   calls (snd (deauthenticate this x)) = calls x @ [RemoveToken]"
  by (simp add: deauthenticate_def call_defs)

text \<open>
  C6 as written fails for a transport that keeps a paired cookie and whose
  \<open>removeToken\<close> clears the token's cookie only: after \<open>authenticate\<close> and \<open>deauthenticate\<close>
  the paired cookie is still there.
\<close>

theorem deauthenticate_modifier_counterexample:
  "\<not> (modifier_cookie (http (snd (deauthenticate (secretEngine pairCTE)
         (snd (authenticate tableSigner (secretEngine pairCTE) (Some [(''user'', ''a'')])
            (incoming \<lparr>jwt_cookie = None, modifier_cookie = None\<rparr>)))
       :: (string + unit) \<times> (string, cookies) exchange))) = None)"
  by (simp add: deauthenticate_def authenticate_def sign_def call_defs secretEngine_fields
      pairCTE_def tableSigner_def incoming_def)

text \<open>
  C7 (amended). If the transport's \<open>getToken\<close> answers \<open>null\<close> on what its \<open>removeToken\<close>
  leaves, then \<open>deauthenticate\<close> followed by \<open>verify\<close> on the same exchange resolves with
  \<open>req.token\<close> and \<open>req.signedToken\<close> both \<open>null\<close>, and \<open>jwt.verify\<close> is not called.
\<close>

theorem deauthenticate_then_verify:
  fixes jwt :: "('v, 'e) jsonwebtoken" and this :: "('v, 'c) JwtEngine"
    and x d :: "('v, 'c) exchange"
  assumes "getToken (this_clientTokenEngine this)
             (removeToken (this_clientTokenEngine this) (http x)) = None"
    and "d = snd (deauthenticate this x :: ('e + unit) \<times> ('v, 'c) exchange)"
  shows "fst (verify jwt this d) = Inr () \<and>
         token (req (snd (verify jwt this d))) = None \<and>
         signedToken (req (snd (verify jwt this d))) = None \<and>
         calls (snd (verify jwt this d)) = calls x @ [RemoveToken, GetToken]"
  using assms by (simp add: verify_def deauthenticate_def call_defs)

theorem deauthenticate_then_verify_witness:
  "getToken (this_clientTokenEngine (secretEngine slotCTE))
     (removeToken (this_clientTokenEngine (secretEngine slotCTE))
        (http (incoming (Some ''tokenA'')))) = None \<and>
   req (snd (verify tableSigner (secretEngine slotCTE)
     (snd (deauthenticate (secretEngine slotCTE) (incoming (Some ''tokenA''))
        :: (string + unit) \<times> (string, string option) exchange)))) =
     \<lparr>token = None, signedToken = None\<rparr>"
proof -
  let ?e = "secretEngine slotCTE"
  let ?d = "snd (deauthenticate ?e (incoming (Some ''tokenA''))
              :: (string + unit) \<times> (string, string option) exchange)"
  have g: "getToken (this_clientTokenEngine ?e)
             (removeToken (this_clientTokenEngine ?e) (http (incoming (Some ''tokenA'')))) = None"
    by (simp add: secretEngine_fields slotCTE_def)
  have "token (req (snd (verify tableSigner ?e ?d))) = None \<and>
        signedToken (req (snd (verify tableSigner ?e ?d))) = None"
    using deauthenticate_then_verify [OF g refl, of tableSigner] by simp
  then have "req (snd (verify tableSigner ?e ?d)) = \<lparr>token = None, signedToken = None\<rparr>"
    by (cases "req (snd (verify tableSigner ?e ?d))") simp
  with g show ?thesis by simp
qed

text \<open>
  C7 as written fails for a transport whose \<open>removeToken\<close> does not change what
  \<open>getToken\<close> reads (the token travels in a request header; or \<open>getToken\<close> reads the
  request and \<open>removeToken\<close> writes the response only): after \<open>deauthenticate\<close>, \<open>verify\<close>
  finds the token again and resolves the request with its payload.
\<close>

theorem deauthenticate_then_verify_counterexample:
  "\<not> (token (req (snd (verify tableSigner (secretEngine headerCTE)
          (snd (deauthenticate (secretEngine headerCTE) (incoming (Some ''tokenA''))
             :: (string + unit) \<times> (string, string option) exchange))))) = None \<and>
      signedToken (req (snd (verify tableSigner (secretEngine headerCTE)
          (snd (deauthenticate (secretEngine headerCTE) (incoming (Some ''tokenA''))
             :: (string + unit) \<times> (string, string option) exchange))))) = None)"
  by (simp add: verify_def deauthenticate_def call_defs secretEngine_fields headerCTE_def
      tableSigner_def incoming_def)

text \<open>
  C9 (amended). After \<open>authenticate(P1)\<close> and then \<open>authenticate(P2)\<close> on the same exchange:
  if the Signer accepts \<open>P2\<close>, \<open>req.token\<close> is exactly \<open>P2\<close> and \<open>req.signedToken\<close> is the
  token signed for \<open>P2\<close>, whatever \<open>P1\<close> was and whether or not the first call succeeded; if
  the Signer rejects \<open>P2\<close>, the request is as the first call left it. In no case is \<open>P1\<close>
  merged with \<open>P2\<close>.
\<close>

theorem reauthenticate_replaces:
  "(\<forall>s2. jwt_sign jwt P2 (privateKey (this_options this)) (this_signOptions this) = Inr s2 \<longrightarrow>
      fst (authenticate jwt this (Some P2) (snd (authenticate jwt this (Some P1) x))) = Inr s2 \<and>
      token (req (snd (authenticate jwt this (Some P2)
        (snd (authenticate jwt this (Some P1) x))))) = Some P2 \<and>
      signedToken (req (snd (authenticate jwt this (Some P2)
        (snd (authenticate jwt this (Some P1) x))))) = Some s2) \<and>
   (\<forall>err. jwt_sign jwt P2 (privateKey (this_options this)) (this_signOptions this) = Inl err \<longrightarrow>
      fst (authenticate jwt this (Some P2) (snd (authenticate jwt this (Some P1) x))) = Inl err \<and>
      req (snd (authenticate jwt this (Some P2) (snd (authenticate jwt this (Some P1) x)))) =
        req (snd (authenticate jwt this (Some P1) x)))"
  by (cases "jwt_sign jwt P2 (privateKey (this_options this)) (this_signOptions this)")
     (simp_all add: authenticate_def sign_def call_defs split: sum.splits prod.splits)

theorem reauthenticate_replaces_witness:
  "jwt_sign tableSigner [(''user'', ''b'')] (privateKey (this_options (secretEngine slotCTE)))
     (this_signOptions (secretEngine slotCTE)) = Inr ''tokenB'' \<and>
   req (snd (authenticate tableSigner (secretEngine slotCTE) (Some [(''user'', ''b'')])
     (snd (authenticate tableSigner (secretEngine slotCTE) (Some [(''user'', ''a'')])
        (incoming None))))) =
     \<lparr>token = Some [(''user'', ''b'')], signedToken = Some ''tokenB''\<rparr>"
proof -
  let ?e = "secretEngine slotCTE"
  let ?x2 = "snd (authenticate tableSigner ?e (Some [(''user'', ''b'')])
               (snd (authenticate tableSigner ?e (Some [(''user'', ''a'')]) (incoming None))))"
  have s: "jwt_sign tableSigner [(''user'', ''b'')] (privateKey (this_options ?e))
             (this_signOptions ?e) = Inr ''tokenB''"
    by (simp add: secretEngine_fields tableSigner_def)
  have "token (req ?x2) = Some [(''user'', ''b'')] \<and> signedToken (req ?x2) = Some ''tokenB''"
    using reauthenticate_replaces [of tableSigner "[(''user'', ''b'')]" ?e "[(''user'', ''a'')]"
        "incoming None"] s by blast
  then have "req ?x2 = \<lparr>token = Some [(''user'', ''b'')], signedToken = Some ''tokenB''\<rparr>"
    by (cases "req ?x2") simp
  with s show ?thesis by simp
qed

text \<open>
  C9 as written fails when the Signer rejects \<open>P2\<close>: the second call is rejected
  before \<open>req.token\<close> is assigned, and the payload stays \<open>P1\<close>.
\<close>

theorem reauthenticate_counterexample:
  "\<not> (token (req (snd (authenticate tableSigner (secretEngine slotCTE) (Some [(''exp'', ''1'')])
          (snd (authenticate tableSigner (secretEngine slotCTE) (Some [(''user'', ''a'')])
             (incoming None)))))) = Some [(''exp'', ''1'')])"
  by (simp add: authenticate_def sign_def call_defs secretEngine_fields slotCTE_def
      tableSigner_def incoming_def)

end
